theory Spec2Isabelle
  imports Complex_Main
begin

section \<open>Units and collaborators of the physics core\<close>

text \<open>
  The embedding follows \<^verbatim>\<open>src/Player.cpp\<close> and \<^verbatim>\<open>src/FirstCaveBat.cpp\<close>.
  The C++ \<^verbatim>\<open>float\<close> quantities (\<^verbatim>\<open>units::Game\<close>, \<^verbatim>\<open>units::Velocity\<close>,
  \<^verbatim>\<open>units::Acceleration\<close>, \<^verbatim>\<open>units::Degrees\<close>) are idealised as \<^typ>\<open>real\<close>: rounding,
  infinities and NaN are outside the model. \<^verbatim>\<open>units::MS\<close> and \<^verbatim>\<open>units::Tile\<close> are
  unsigned, hence \<^typ>\<open>nat\<close>; \<^verbatim>\<open>units::HP\<close> and the acceleration intent are \<^typ>\<open>int\<close>.
  C++ member names end in an underscore, which is dropped here (\<^verbatim>\<open>velocity_x_\<close> is
  \<open>velocity_x\<close>; \<^verbatim>\<open>x_\<close>, \<^verbatim>\<open>y_\<close> are \<open>player_x\<close>, \<open>player_y\<close>).
\<close>

type_synonym Game = real
type_synonym Velocity = real
type_synonym Acceleration = real
type_synonym MS = nat
type_synonym Tile = nat
type_synonym HP = int

text \<open>
  Modelled from the spec: \<^verbatim>\<open>Rectangle.h\<close> is not among the sources. The spec calls it an
  axis-aligned box primitive with edge accessors; the constructor order
  (x, y, width, height) is the one \<^verbatim>\<open>Player::damageRectangle\<close> uses.
\<close>

record Rectangle =
  rect_x :: Game
  rect_y :: Game
  rect_width :: Game
  rect_height :: Game

definition Rectangle_left :: "Rectangle \<Rightarrow> Game" where
  "Rectangle_left r = rect_x r"

definition Rectangle_right :: "Rectangle \<Rightarrow> Game" where
  "Rectangle_right r = rect_x r + rect_width r"

definition Rectangle_top :: "Rectangle \<Rightarrow> Game" where
  "Rectangle_top r = rect_y r"

definition Rectangle_bottom :: "Rectangle \<Rightarrow> Game" where
  "Rectangle_bottom r = rect_y r + rect_height r"

definition Rectangle_width :: "Rectangle \<Rightarrow> Game" where
  "Rectangle_width r = rect_width r"

definition Rectangle_height :: "Rectangle \<Rightarrow> Game" where
  "Rectangle_height r = rect_height r"

text \<open>
  Modelled from the spec: \<^verbatim>\<open>Map.h\<close> is not among the sources. The spec gives the tile
  query as \<^verbatim>\<open>collidingTiles(rectangle) -> sequence of {type: WALL|OTHER, row, col}\<close>.
  A map is therefore the query itself, and the order of the returned list is the
  provider's iteration order.
\<close>

datatype TileType = WALL_TILE | OTHER_TILE

record CollisionTile =
  row :: Tile
  col :: Tile
  tile_type :: TileType

type_synonym Map = "Rectangle \<Rightarrow> CollisionTile list"

definition getCollidingTiles :: "Map \<Rightarrow> Rectangle \<Rightarrow> CollisionTile list" where
  "getCollidingTiles m rectangle = m rectangle"

text \<open>
  Modelled from the spec: \<^verbatim>\<open>Timer.h\<close> is not among the sources. The spec describes the
  invincibility timer as the state machine \<open>{INACTIVE, ACTIVE(remaining_ms)}\<close>, whose
  activation sets the remaining time to the fixed invincibility duration (the
  expiration time handed to the timer's constructor).
\<close>

datatype Timer = INACTIVE | ACTIVE MS

fun Timer_active :: "Timer \<Rightarrow> bool" where
  "Timer_active INACTIVE = False"
| "Timer_active (ACTIVE remaining) = True"

definition Timer_reset :: "MS \<Rightarrow> Timer \<Rightarrow> Timer" where
  "Timer_reset expiration_time t = ACTIVE expiration_time"

text \<open>
  Modelled from the spec: the \<^verbatim>\<open>Health\<close> class is not among the sources. The spec says
  that taking damage applies the damage to health, so that health changes by the
  amount; health is the number of hit points left.
\<close>

type_synonym Health = HP

definition Health_takeDamage :: "HP \<Rightarrow> Health \<Rightarrow> Health" where
  "Health_takeDamage damage h = h - damage"

section \<open>Player\<close>

subsection \<open>Constants of \<^verbatim>\<open>Player.cpp\<close>\<close>

definition kWalkingAcceleration :: Acceleration where
  "kWalkingAcceleration = 0.00083007812"

definition kMaxSpeedX :: Velocity where
  "kMaxSpeedX = 0.15859375"

definition kFriction :: Acceleration where
  "kFriction = 0.00049804587"

definition kGravity :: Acceleration where
  "kGravity = 0.00078125"

definition kMaxSpeedY :: Velocity where
  "kMaxSpeedY = 0.2998046875"

definition kJumpSpeed :: Velocity where
  "kJumpSpeed = 0.25"

definition kShortJumpSpeed :: Velocity where
  "kShortJumpSpeed = kJumpSpeed / 1.5"

definition kAirAcceleration :: Acceleration where
  "kAirAcceleration = 0.0003125"

definition kJumpGravity :: Acceleration where
  "kJumpGravity = 0.0003125"

definition kCollisionX :: Rectangle where
  "kCollisionX = \<lparr>rect_x = 6, rect_y = 10, rect_width = 20, rect_height = 12\<rparr>"

definition kCollisionY :: Rectangle where
  "kCollisionY = \<lparr>rect_x = 10, rect_y = 2, rect_width = 12, rect_height = 30\<rparr>"

definition kInvincibleTime :: MS where
  "kInvincibleTime = 3000"

subsection \<open>State\<close>

datatype MotionType = STANDING | INTERACTING | WALKING | JUMPING | FALLING

datatype HorizontalFacing = LEFT | RIGHT

datatype VerticalFacing = UP | DOWN | HORIZONTAL

record SpriteState =
  motion_type :: MotionType
  horizontal_facing :: HorizontalFacing
  vertical_facing :: VerticalFacing

text \<open>
  The physical state of \<^verbatim>\<open>Player\<close>. The sprite table and the gun are drawing
  resources and carry no state that the functions below read. \<open>damage_text\<close> holds
  the amount last handed to \<^verbatim>\<open>DamageText::setDamage\<close>. \<^verbatim>\<open>Player.h\<close> is not among the
  sources; its accessor \<^verbatim>\<open>on_ground()\<close> is read as the member \<^verbatim>\<open>on_ground_\<close>, and the
  facing members are \<open>facing_horizontal\<close> and \<open>facing_vertical\<close>, the names
  \<open>horizontal_facing\<close> and \<open>vertical_facing\<close> being those of \<^verbatim>\<open>SpriteState\<close>.
\<close>

record Player =
  player_x :: Game
  player_y :: Game
  velocity_x :: Velocity
  velocity_y :: Velocity
  acceleration_x :: int
  facing_horizontal :: HorizontalFacing
  facing_vertical :: VerticalFacing
  on_ground :: bool
  jump_active :: bool
  interacting :: bool
  health :: Health
  damage_text :: HP
  invincible_timer :: Timer

record CollisionInfo =
  collided :: bool
  info_row :: Tile
  info_col :: Tile

subsection \<open>\<^verbatim>\<open>getWallCollisionInfo\<close>\<close>

text \<open>The \<^verbatim>\<open>for\<close> loop with its \<^verbatim>\<open>break\<close>: the first wall tile decides.\<close>

fun getWallCollisionInfo_loop :: "CollisionTile list \<Rightarrow> CollisionInfo \<Rightarrow> CollisionInfo" where
  "getWallCollisionInfo_loop [] info = info"
| "getWallCollisionInfo_loop (t # tiles) info =
     (if tile_type t = WALL_TILE
      then info\<lparr>collided := True, info_row := row t, info_col := col t\<rparr>
      else getWallCollisionInfo_loop tiles info)"

definition getWallCollisionInfo :: "Map \<Rightarrow> Rectangle \<Rightarrow> CollisionInfo" where
  "getWallCollisionInfo m rectangle =
     getWallCollisionInfo_loop (getCollidingTiles m rectangle)
       \<lparr>collided = False, info_row = 0, info_col = 0\<rparr>"

subsection \<open>Classifier and input intents\<close>

text \<open>
  \<^verbatim>\<open>getSpriteState\<close> is not a \<^verbatim>\<open>const\<close> member, so the model hands the player back
  next to the result.
\<close>

definition getSpriteState :: "Player \<Rightarrow> SpriteState \<times> Player" where
  "getSpriteState p =
     (let motion =
        (if interacting p then INTERACTING
         else if on_ground p then (if acceleration_x p \<noteq> 0 then WALKING else STANDING)
         else (if velocity_y p < 0 then JUMPING else FALLING))
      in (\<lparr>motion_type = motion,
           horizontal_facing = facing_horizontal p,
           vertical_facing = facing_vertical p\<rparr>, p))"

definition startMovingLeft :: "Player \<Rightarrow> Player" where
  "startMovingLeft p = p\<lparr>acceleration_x := - 1, facing_horizontal := LEFT, interacting := False\<rparr>"

definition startMovingRight :: "Player \<Rightarrow> Player" where
  "startMovingRight p = p\<lparr>acceleration_x := 1, facing_horizontal := RIGHT, interacting := False\<rparr>"

definition stopMoving :: "Player \<Rightarrow> Player" where
  "stopMoving p = p\<lparr>acceleration_x := 0\<rparr>"

definition startJump :: "Player \<Rightarrow> Player" where
  "startJump p =
     (let p1 = p\<lparr>jump_active := True, interacting := False\<rparr>
      in if on_ground p1 then p1\<lparr>velocity_y := - kJumpSpeed\<rparr> else p1)"

definition stopJump :: "Player \<Rightarrow> Player" where
  "stopJump p = p\<lparr>jump_active := False\<rparr>"

subsection \<open>\<^verbatim>\<open>takeDamage\<close>\<close>

text \<open>The line printed to the console is not part of the player's state.\<close>

definition takeDamage :: "HP \<Rightarrow> Player \<Rightarrow> Player" where
  "takeDamage damage p =
     (if Timer_active (invincible_timer p) then p
      else p\<lparr>health := Health_takeDamage damage (health p),
             damage_text := damage,
             velocity_y := min (velocity_y p) (- kShortJumpSpeed),
             invincible_timer := Timer_reset kInvincibleTime (invincible_timer p)\<rparr>)"

subsection \<open>Collision probes\<close>

text \<open>
  Each probe starts with an \<^verbatim>\<open>assert\<close> on the sign of its argument; a failed
  assertion aborts the program, which is the value \<open>None\<close>.
\<close>

definition leftCollision :: "Player \<Rightarrow> Game \<Rightarrow> Rectangle option" where
  "leftCollision p delta =
     (if delta \<le> 0
      then Some \<lparr>rect_x = player_x p + Rectangle_left kCollisionX + delta,
                 rect_y = player_y p + Rectangle_top kCollisionX,
                 rect_width = Rectangle_width kCollisionX / 2 - delta,
                 rect_height = Rectangle_height kCollisionX\<rparr>
      else None)"

definition rightCollision :: "Player \<Rightarrow> Game \<Rightarrow> Rectangle option" where
  "rightCollision p delta =
     (if delta \<ge> 0
      then Some \<lparr>rect_x = player_x p + Rectangle_left kCollisionX + Rectangle_width kCollisionX / 2,
                 rect_y = player_y p + Rectangle_top kCollisionX,
                 rect_width = Rectangle_width kCollisionX / 2 + delta,
                 rect_height = Rectangle_height kCollisionX\<rparr>
      else None)"

definition topCollision :: "Player \<Rightarrow> Game \<Rightarrow> Rectangle option" where
  "topCollision p delta =
     (if delta \<le> 0
      then Some \<lparr>rect_x = player_x p + Rectangle_left kCollisionY,
                 rect_y = player_y p + Rectangle_top kCollisionY + delta,
                 rect_width = Rectangle_width kCollisionY,
                 rect_height = Rectangle_height kCollisionY / 2 - delta\<rparr>
      else None)"

definition bottomCollision :: "Player \<Rightarrow> Game \<Rightarrow> Rectangle option" where
  "bottomCollision p delta =
     (if delta \<ge> 0
      then Some \<lparr>rect_x = player_x p + Rectangle_left kCollisionY,
                 rect_y = player_y p + Rectangle_top kCollisionY + Rectangle_height kCollisionY / 2,
                 rect_width = Rectangle_width kCollisionY,
                 rect_height = Rectangle_height kCollisionY / 2 + delta\<rparr>
      else None)"

text \<open>
  The four expressions \<^verbatim>\<open>getWallCollisionInfo(map, leftCollision(delta))\<close> and so on, as
  the updates evaluate them.
\<close>

definition probeLeft :: "Map \<Rightarrow> Player \<Rightarrow> Game \<Rightarrow> CollisionInfo option" where
  "probeLeft m p delta = map_option (getWallCollisionInfo m) (leftCollision p delta)"

definition probeRight :: "Map \<Rightarrow> Player \<Rightarrow> Game \<Rightarrow> CollisionInfo option" where
  "probeRight m p delta = map_option (getWallCollisionInfo m) (rightCollision p delta)"

definition probeTop :: "Map \<Rightarrow> Player \<Rightarrow> Game \<Rightarrow> CollisionInfo option" where
  "probeTop m p delta = map_option (getWallCollisionInfo m) (topCollision p delta)"

definition probeBottom :: "Map \<Rightarrow> Player \<Rightarrow> Game \<Rightarrow> CollisionInfo option" where
  "probeBottom m p delta = map_option (getWallCollisionInfo m) (bottomCollision p delta)"

subsection \<open>\<^verbatim>\<open>updateX\<close>\<close>

text \<open>
  \<^verbatim>\<open>units.h\<close> is not among the sources, so \<^verbatim>\<open>units::tileToGame\<close> is a parameter of the
  two updates.

  The velocity part of \<^verbatim>\<open>updateX\<close> (up to the comment \<^verbatim>\<open>// Calculate delta\<close>).
\<close>

definition updateX_velocity :: "MS \<Rightarrow> Player \<Rightarrow> Player" where
  "updateX_velocity elapsed_time_ms p =
     (let accel = (if on_ground p then kWalkingAcceleration else kAirAcceleration)
                    * real_of_int (acceleration_x p);
          v = velocity_x p + accel * real elapsed_time_ms
      in p\<lparr>velocity_x :=
            (if acceleration_x p < 0 then max v (- kMaxSpeedX)
             else if acceleration_x p > 0 then min v kMaxSpeedX
             else if on_ground p
               then (if v > 0
                     then max 0 (v - kFriction * real elapsed_time_ms)
                     else min 0 (v + kFriction * real elapsed_time_ms))
             else v)\<rparr>)"

text \<open>
  The four reactions of \<^verbatim>\<open>updateX\<close> are named after the comments that head them.
  Moving right, \<^verbatim>\<open>// React to collision\<close>:
\<close>

definition reactRight :: "(Tile \<Rightarrow> Game) \<Rightarrow> CollisionInfo \<Rightarrow> Game \<Rightarrow> Player \<Rightarrow> Player" where
  "reactRight tileToGame info delta p =
     (if collided info
      then p\<lparr>player_x := tileToGame (info_col info) - Rectangle_right kCollisionX,
             velocity_x := 0\<rparr>
      else p\<lparr>player_x := player_x p + delta\<rparr>)"

text \<open>Moving right, \<^verbatim>\<open>// Check collision in the other direction\<close>:\<close>

definition recheckLeft :: "(Tile \<Rightarrow> Game) \<Rightarrow> CollisionInfo \<Rightarrow> Player \<Rightarrow> Player" where
  "recheckLeft tileToGame info p =
     (if collided info
      then p\<lparr>player_x := tileToGame (info_col info) + Rectangle_right kCollisionX\<rparr>
      else p)"

text \<open>Moving left (or not at all): the same two reactions.\<close>

definition reactLeft :: "(Tile \<Rightarrow> Game) \<Rightarrow> CollisionInfo \<Rightarrow> Game \<Rightarrow> Player \<Rightarrow> Player" where
  "reactLeft tileToGame info delta p =
     (if collided info
      then p\<lparr>player_x := tileToGame (info_col info) + Rectangle_right kCollisionX,
             velocity_x := 0\<rparr>
      else p\<lparr>player_x := player_x p + delta\<rparr>)"

definition recheckRight :: "(Tile \<Rightarrow> Game) \<Rightarrow> CollisionInfo \<Rightarrow> Player \<Rightarrow> Player" where
  "recheckRight tileToGame info p =
     (if collided info
      then p\<lparr>player_x := tileToGame (info_col info) - Rectangle_right kCollisionX,
             on_ground := True\<rparr>
      else p)"

definition updateX :: "(Tile \<Rightarrow> Game) \<Rightarrow> MS \<Rightarrow> Map \<Rightarrow> Player \<Rightarrow> Player option" where
  "updateX tileToGame elapsed_time_ms m p =
     (let p1 = updateX_velocity elapsed_time_ms p;
          delta = velocity_x p1 * real elapsed_time_ms
      in if delta > 0
         then (case probeRight m p1 delta of
                 None \<Rightarrow> None
               | Some info \<Rightarrow>
                   (let p2 = reactRight tileToGame info delta p1
                    in case probeLeft m p2 0 of
                         None \<Rightarrow> None
                       | Some info' \<Rightarrow> Some (recheckLeft tileToGame info' p2)))
         else (case probeLeft m p1 delta of
                 None \<Rightarrow> None
               | Some info \<Rightarrow>
                   (let p2 = reactLeft tileToGame info delta p1
                    in case probeRight m p2 0 of
                         None \<Rightarrow> None
                       | Some info' \<Rightarrow> Some (recheckRight tileToGame info' p2))))"

subsection \<open>\<^verbatim>\<open>updateY\<close>\<close>

text \<open>The velocity part of \<^verbatim>\<open>updateY\<close>.\<close>

definition updateY_velocity :: "MS \<Rightarrow> Player \<Rightarrow> Player" where
  "updateY_velocity elapsed_time_ms p =
     (let gravity = (if jump_active p \<and> velocity_y p < 0 then kJumpGravity else kGravity)
      in p\<lparr>velocity_y := min (velocity_y p + gravity * real elapsed_time_ms) kMaxSpeedY\<rparr>)"

text \<open>Moving down: the two reactions.\<close>

definition reactDown :: "(Tile \<Rightarrow> Game) \<Rightarrow> CollisionInfo \<Rightarrow> Game \<Rightarrow> Player \<Rightarrow> Player" where
  "reactDown tileToGame info delta p =
     (if collided info
      then p\<lparr>player_y := tileToGame (info_row info) - Rectangle_bottom kCollisionY,
             velocity_y := 0,
             on_ground := True\<rparr>
      else p\<lparr>player_y := player_y p + delta, on_ground := False\<rparr>)"

definition recheckUp :: "(Tile \<Rightarrow> Game) \<Rightarrow> CollisionInfo \<Rightarrow> Player \<Rightarrow> Player" where
  "recheckUp tileToGame info p =
     (if collided info
      then p\<lparr>player_y := tileToGame (info_row info) + Rectangle_height kCollisionY\<rparr>
      else p)"

text \<open>Moving up (or not at all): the two reactions.\<close>

definition reactUp :: "(Tile \<Rightarrow> Game) \<Rightarrow> CollisionInfo \<Rightarrow> Game \<Rightarrow> Player \<Rightarrow> Player" where
  "reactUp tileToGame info delta p =
     (if collided info
      then p\<lparr>player_y := tileToGame (info_row info) + Rectangle_height kCollisionY,
             velocity_y := 0,
             on_ground := False\<rparr>
      else p\<lparr>player_y := player_y p + delta, on_ground := False\<rparr>)"

definition recheckDown :: "(Tile \<Rightarrow> Game) \<Rightarrow> CollisionInfo \<Rightarrow> Player \<Rightarrow> Player" where
  "recheckDown tileToGame info p =
     (if collided info
      then p\<lparr>player_y := tileToGame (info_row info) - Rectangle_bottom kCollisionY,
             on_ground := True\<rparr>
      else p)"

definition updateY :: "(Tile \<Rightarrow> Game) \<Rightarrow> MS \<Rightarrow> Map \<Rightarrow> Player \<Rightarrow> Player option" where
  "updateY tileToGame elapsed_time_ms m p =
     (let p1 = updateY_velocity elapsed_time_ms p;
          delta = velocity_y p1 * real elapsed_time_ms
      in if delta > 0
         then (case probeBottom m p1 delta of
                 None \<Rightarrow> None
               | Some info \<Rightarrow>
                   (let p2 = reactDown tileToGame info delta p1
                    in case probeTop m p2 0 of
                         None \<Rightarrow> None
                       | Some info' \<Rightarrow> Some (recheckUp tileToGame info' p2)))
         else (case probeTop m p1 delta of
                 None \<Rightarrow> None
               | Some info \<Rightarrow>
                   (let p2 = reactUp tileToGame info delta p1
                    in case probeBottom m p2 0 of
                         None \<Rightarrow> None
                       | Some info' \<Rightarrow> Some (recheckDown tileToGame info' p2))))"

section \<open>FirstCaveBat\<close>

text \<open>
  \<^verbatim>\<open>units::kHalfTile\<close> and \<^verbatim>\<open>units::degreesToRadians\<close> come from \<^verbatim>\<open>units.h\<close>, which is
  not among the sources: both are parameters. \<^verbatim>\<open>std::sin\<close> is the sine of the reals.
  The bat's \<^verbatim>\<open>Facing\<close> has the same two values as the player's horizontal facing.
\<close>

definition kAngularVelocity :: real where
  "kAngularVelocity = 120 / 1000"

definition kFlightAmplitude :: "Game \<Rightarrow> Game" where
  "kFlightAmplitude kHalfTile = 5 * kHalfTile"

definition kContactDamage :: HP where
  "kContactDamage = 1"

record FirstCaveBat =
  center_y :: Game
  bat_x :: Game
  bat_y :: Game
  flight_angle :: real
  facing :: HorizontalFacing

definition FirstCaveBat_update ::
    "Game \<Rightarrow> (real \<Rightarrow> real) \<Rightarrow> MS \<Rightarrow> Game \<Rightarrow> FirstCaveBat \<Rightarrow> FirstCaveBat" where
  "FirstCaveBat_update kHalfTile degreesToRadians elapsed_time player_x' b =
     (let b1 = b\<lparr>flight_angle := flight_angle b + kAngularVelocity * real elapsed_time\<rparr>;
          b2 = b1\<lparr>facing := (if bat_x b1 + kHalfTile > player_x' then LEFT else RIGHT)\<rparr>
      in b2\<lparr>bat_y := center_y b2
                       + kFlightAmplitude kHalfTile * sin (degreesToRadians (flight_angle b2))\<rparr>)"

section \<open>Concrete states and surroundings\<close>

text \<open>
  The state that the constructor \<^verbatim>\<open>Player::Player\<close> builds; the \<^verbatim>\<open>Health\<close> object it
  creates is the first argument. A fresh timer is not active.
\<close>

definition Player_ctor :: "Health \<Rightarrow> Game \<Rightarrow> Game \<Rightarrow> Player" where
  "Player_ctor h x y =
     \<lparr>player_x = x, player_y = y, velocity_x = 0, velocity_y = 0, acceleration_x = 0,
      facing_horizontal = LEFT, facing_vertical = HORIZONTAL, on_ground = False,
      jump_active = False, interacting = False, health = h, damage_text = 0,
      invincible_timer = INACTIVE\<rparr>"

text \<open>
  Surroundings on which the updates are evaluated: square tiles of 32 game units, and
  a map whose only wall is the tile at a given row and column, reported for every
  rectangle that reaches into the tile's square.
\<close>

definition tileToGame32 :: "Tile \<Rightarrow> Game" where
  "tileToGame32 tile = real tile * 32"

definition single_wall_map :: "Tile \<Rightarrow> Tile \<Rightarrow> Map" where
  "single_wall_map r c rectangle =
     (if Rectangle_left rectangle < tileToGame32 (c + 1)
         \<and> tileToGame32 c \<le> Rectangle_right rectangle
         \<and> Rectangle_top rectangle < tileToGame32 (r + 1)
         \<and> tileToGame32 r \<le> Rectangle_bottom rectangle
      then [\<lparr>row = r, col = c, tile_type = WALL_TILE\<rparr>]
      else [])"

text \<open>
  A map given by a list of tiles: the query returns, in the order of the list, the
  tiles into whose squares the rectangle reaches.
\<close>

definition tiles_map :: "CollisionTile list \<Rightarrow> Map" where
  "tiles_map tiles rectangle =
     filter (\<lambda>tile. Rectangle_left rectangle < tileToGame32 (col tile + 1)
                    \<and> tileToGame32 (col tile) \<le> Rectangle_right rectangle
                    \<and> Rectangle_top rectangle < tileToGame32 (row tile + 1)
                    \<and> tileToGame32 (row tile) \<le> Rectangle_bottom rectangle) tiles"

text \<open>
  The friction rule in the words of the spec, with the friction rate as a parameter:
  a positive velocity becomes \<open>max(0, velocity - friction * elapsed_time)\<close>, any other
  one \<open>min(0, velocity + friction * elapsed_time)\<close>. The rate of the source is
  \<open>kFriction\<close>; the rule is compared with \<^verbatim>\<open>updateX\<close> below.
\<close>

definition spec_friction :: "Acceleration \<Rightarrow> MS \<Rightarrow> Velocity \<Rightarrow> Velocity" where
  "spec_friction friction elapsed_time v =
     (if v > 0 then max 0 (v - friction * real elapsed_time)
      else min 0 (v + friction * real elapsed_time))"

section \<open>Properties\<close>

subsection \<open>The wall probe\<close>

lemma loop_find:
  "getWallCollisionInfo_loop tiles info =
     (case find (\<lambda>t. tile_type t = WALL_TILE) tiles of
        None \<Rightarrow> info
      | Some t \<Rightarrow> info\<lparr>collided := True, info_row := row t, info_col := col t\<rparr>)"
  by (induction tiles) simp_all

lemma getWallCollisionInfo_find:
  "getWallCollisionInfo m r =
     (case find (\<lambda>t. tile_type t = WALL_TILE) (m r) of
        None \<Rightarrow> \<lparr>collided = False, info_row = 0, info_col = 0\<rparr>
      | Some t \<Rightarrow> \<lparr>collided = True, info_row = row t, info_col = col t\<rparr>)"
  by (simp add: getWallCollisionInfo_def getCollidingTiles_def loop_find split: option.split)

subsection \<open>The state classifier\<close>

text \<open>
  C9. For every player state the classifier reports INTERACTING when the interacting
  flag is set; otherwise, when grounded, WALKING for a non-zero acceleration intent and
  STANDING for a zero one; otherwise JUMPING when the vertical velocity is negative and
  FALLING when it is not. The result carries the current horizontal and vertical
  facing, and the player is handed back unchanged.
\<close>

theorem getSpriteState_rules:
  "(interacting p \<longrightarrow> motion_type (fst (getSpriteState p)) = INTERACTING)
   \<and> (\<not> interacting p \<and> on_ground p \<and> acceleration_x p \<noteq> 0
        \<longrightarrow> motion_type (fst (getSpriteState p)) = WALKING)
   \<and> (\<not> interacting p \<and> on_ground p \<and> acceleration_x p = 0
        \<longrightarrow> motion_type (fst (getSpriteState p)) = STANDING)
   \<and> (\<not> interacting p \<and> \<not> on_ground p \<and> velocity_y p < 0
        \<longrightarrow> motion_type (fst (getSpriteState p)) = JUMPING)
   \<and> (\<not> interacting p \<and> \<not> on_ground p \<and> velocity_y p \<ge> 0
        \<longrightarrow> motion_type (fst (getSpriteState p)) = FALLING)
   \<and> horizontal_facing (fst (getSpriteState p)) = facing_horizontal p
   \<and> vertical_facing (fst (getSpriteState p)) = facing_vertical p
   \<and> snd (getSpriteState p) = p"
  by (simp add: getSpriteState_def Let_def)

theorem getSpriteState_rules_witness:
  "motion_type (fst (getSpriteState ((Player_ctor 3 320 224)\<lparr>interacting := True\<rparr>)))
     = INTERACTING
   \<and> motion_type (fst (getSpriteState
        ((Player_ctor 3 320 224)\<lparr>on_ground := True, acceleration_x := 1\<rparr>))) = WALKING
   \<and> motion_type (fst (getSpriteState ((Player_ctor 3 320 224)\<lparr>on_ground := True\<rparr>)))
     = STANDING
   \<and> motion_type (fst (getSpriteState ((Player_ctor 3 320 224)\<lparr>velocity_y := - 0.25\<rparr>)))
     = JUMPING
   \<and> motion_type (fst (getSpriteState (Player_ctor 3 320 224))) = FALLING"
  using getSpriteState_rules [of "(Player_ctor 3 320 224)\<lparr>interacting := True\<rparr>"]
        getSpriteState_rules [of "(Player_ctor 3 320 224)\<lparr>on_ground := True, acceleration_x := 1\<rparr>"]
        getSpriteState_rules [of "(Player_ctor 3 320 224)\<lparr>on_ground := True\<rparr>"]
        getSpriteState_rules [of "(Player_ctor 3 320 224)\<lparr>velocity_y := - 0.25\<rparr>"]
        getSpriteState_rules [of "Player_ctor 3 320 224"]
  by (simp add: Player_ctor_def)

subsection \<open>Damage and invincibility\<close>

text \<open>
  C7. While the invincibility timer is active, \<^verbatim>\<open>takeDamage\<close> returns the player as it
  was. Otherwise health drops by the damage amount, the vertical velocity becomes
  \<open>min velocity_y (- kShortJumpSpeed)\<close> (so it is at most \<open>- kShortJumpSpeed\<close>), the
  horizontal velocity is kept and the timer becomes active with the invincibility
  duration. A second call made right after changes nothing, so health has changed by
  the first amount only.
\<close>

theorem takeDamage_once:
  "(Timer_active (invincible_timer p) \<longrightarrow> takeDamage damage p = p)
   \<and> (\<not> Timer_active (invincible_timer p) \<longrightarrow>
        health (takeDamage damage p) = health p - damage
      \<and> velocity_y (takeDamage damage p) = min (velocity_y p) (- kShortJumpSpeed)
      \<and> velocity_y (takeDamage damage p) \<le> - kShortJumpSpeed
      \<and> velocity_x (takeDamage damage p) = velocity_x p
      \<and> invincible_timer (takeDamage damage p) = ACTIVE kInvincibleTime
      \<and> Timer_active (invincible_timer (takeDamage damage p))
      \<and> takeDamage damage' (takeDamage damage p) = takeDamage damage p
      \<and> health (takeDamage damage' (takeDamage damage p)) = health p - damage)"
  by (simp add: takeDamage_def Health_takeDamage_def Timer_reset_def)

theorem takeDamage_once_witness:
  "takeDamage 5 ((Player_ctor 3 320 224)\<lparr>invincible_timer := ACTIVE 1200\<rparr>)
     = (Player_ctor 3 320 224)\<lparr>invincible_timer := ACTIVE 1200\<rparr>
   \<and> health (takeDamage 1 (Player_ctor 3 320 224)) = 2
   \<and> velocity_y (takeDamage 1 (Player_ctor 3 320 224)) = - (1 / 6)
   \<and> invincible_timer (takeDamage 1 (Player_ctor 3 320 224)) = ACTIVE 3000
   \<and> health (takeDamage 2 (takeDamage 1 (Player_ctor 3 320 224))) = 2"
  using takeDamage_once [of "(Player_ctor 3 320 224)\<lparr>invincible_timer := ACTIVE 1200\<rparr>" 5 0]
        takeDamage_once [of "Player_ctor 3 320 224" 1 2]
  by (simp add: Player_ctor_def kShortJumpSpeed_def kJumpSpeed_def kInvincibleTime_def)

subsection \<open>The bat\<close>

text \<open>
  C10. \<^verbatim>\<open>FirstCaveBat::update\<close> keeps the bat's x coordinate and its flight centre. It
  advances the flight angle by \<open>kAngularVelocity\<close> times the elapsed time, puts y at the
  centre plus \<open>kFlightAmplitude\<close> times the sine of the new angle (an angle in degrees,
  converted by \<^verbatim>\<open>degreesToRadians\<close>), and faces LEFT exactly when x plus half a tile
  exceeds the player's x, RIGHT otherwise.
\<close>

theorem FirstCaveBat_update_effect:
  "bat_x (FirstCaveBat_update kHalfTile degreesToRadians elapsed_time px b) = bat_x b
   \<and> center_y (FirstCaveBat_update kHalfTile degreesToRadians elapsed_time px b) = center_y b
   \<and> flight_angle (FirstCaveBat_update kHalfTile degreesToRadians elapsed_time px b)
       = flight_angle b + kAngularVelocity * real elapsed_time
   \<and> bat_y (FirstCaveBat_update kHalfTile degreesToRadians elapsed_time px b)
       = center_y b + kFlightAmplitude kHalfTile
           * sin (degreesToRadians
               (flight_angle (FirstCaveBat_update kHalfTile degreesToRadians elapsed_time px b)))
   \<and> (facing (FirstCaveBat_update kHalfTile degreesToRadians elapsed_time px b) = LEFT)
       = (bat_x b + kHalfTile > px)
   \<and> (facing (FirstCaveBat_update kHalfTile degreesToRadians elapsed_time px b) = RIGHT)
       = (\<not> bat_x b + kHalfTile > px)"
  by (simp add: FirstCaveBat_update_def Let_def)

subsection \<open>The updates always return\<close>

text \<open>
  The assertions of the four probes hold on every path of the two updates, and the
  velocity an update leaves is the integrated one or zero.
\<close>

lemma updateX_total:
  "\<exists>p'. updateX tg t m p = Some p'
     \<and> (velocity_x p' = velocity_x (updateX_velocity t p) \<or> velocity_x p' = 0)"
  by (simp add: updateX_def Let_def probeLeft_def probeRight_def rightCollision_def
      leftCollision_def reactRight_def reactLeft_def recheckLeft_def recheckRight_def)

lemma updateY_total:
  "\<exists>p'. updateY tg t m p = Some p'
     \<and> (velocity_y p' = velocity_y (updateY_velocity t p) \<or> velocity_y p' = 0)"
  by (simp add: updateY_def Let_def probeTop_def probeBottom_def topCollision_def
      bottomCollision_def reactUp_def reactDown_def recheckUp_def recheckDown_def)

subsection \<open>Horizontal velocity\<close>

text \<open>
  C2 (as stated it fails: see the counterexample below). With a non-zero acceleration
  intent the velocity step of \<^verbatim>\<open>updateX\<close> clamps on the side of the intent only: the
  new velocity is at most \<open>kMaxSpeedX\<close> for a positive intent and at least
  \<open>- kMaxSpeedX\<close> for a negative one. If the velocity before the step is within
  \<open>kMaxSpeedX\<close> in absolute value, so is the velocity after it.
\<close>

theorem updateX_velocity_speed_bound:
  "acceleration_x p \<noteq> 0 \<longrightarrow>
     (acceleration_x p > 0 \<longrightarrow> velocity_x (updateX_velocity t p) \<le> kMaxSpeedX)
   \<and> (acceleration_x p < 0 \<longrightarrow> - kMaxSpeedX \<le> velocity_x (updateX_velocity t p))
   \<and> (\<bar>velocity_x p\<bar> \<le> kMaxSpeedX \<longrightarrow> \<bar>velocity_x (updateX_velocity t p)\<bar> \<le> kMaxSpeedX)"
proof (intro impI conjI)
  assume "0 < acceleration_x p"
  then show "velocity_x (updateX_velocity t p) \<le> kMaxSpeedX"
    by (simp add: updateX_velocity_def Let_def)
next
  assume "acceleration_x p < 0"
  then show "- kMaxSpeedX \<le> velocity_x (updateX_velocity t p)"
    by (simp add: updateX_velocity_def Let_def)
next
  assume nz: "acceleration_x p \<noteq> 0" and b: "\<bar>velocity_x p\<bar> \<le> kMaxSpeedX"
  define a where "a = (if on_ground p then kWalkingAcceleration else kAirAcceleration)"
  have a0: "0 \<le> a"
    by (simp add: a_def kWalkingAcceleration_def kAirAcceleration_def)
  have m0: "0 \<le> kMaxSpeedX" by (simp add: kMaxSpeedX_def)
  show "\<bar>velocity_x (updateX_velocity t p)\<bar> \<le> kMaxSpeedX"
  proof (cases "acceleration_x p < 0")
    case True
    then have "a * real_of_int (acceleration_x p) * real t \<le> 0"
      using a0 by (simp add: mult_nonneg_nonpos mult_nonpos_nonneg)
    with True b m0 show ?thesis
      by (simp add: updateX_velocity_def Let_def a_def [symmetric])
  next
    case False
    with nz have pos: "0 < acceleration_x p" by simp
    then have "0 \<le> a * real_of_int (acceleration_x p) * real t"
      using a0 by simp
    with pos b m0 show ?thesis
      by (simp add: updateX_velocity_def Let_def a_def [symmetric])
  qed
qed

theorem updateX_velocity_speed_bound_witness:
  "velocity_x (updateX_velocity 16 ((Player_ctor 3 320 224)
       \<lparr>velocity_x := 0.15, acceleration_x := 1, on_ground := True\<rparr>)) \<le> kMaxSpeedX
   \<and> - kMaxSpeedX \<le> velocity_x (updateX_velocity 16 ((Player_ctor 3 320 224)
       \<lparr>velocity_x := - 0.15, acceleration_x := - 1, on_ground := True\<rparr>))
   \<and> \<bar>velocity_x (updateX_velocity 16 ((Player_ctor 3 320 224)
       \<lparr>velocity_x := 0.15, acceleration_x := 1, on_ground := True\<rparr>))\<bar> \<le> kMaxSpeedX"
  using updateX_velocity_speed_bound [of "(Player_ctor 3 320 224)
       \<lparr>velocity_x := 0.15, acceleration_x := 1, on_ground := True\<rparr>" 16]
     updateX_velocity_speed_bound [of "(Player_ctor 3 320 224)
       \<lparr>velocity_x := - 0.15, acceleration_x := - 1, on_ground := True\<rparr>" 16]
  by (simp add: Player_ctor_def kMaxSpeedX_def)

text \<open>
  C2, counterexample: a player moving left at speed 1 whose intent is to the right
  keeps, after the step over 16 ms, a speed above \<open>kMaxSpeedX\<close>.
\<close>

theorem updateX_velocity_unbounded_counterexample:
  "acceleration_x ((Player_ctor 3 320 224)
       \<lparr>velocity_x := - 1, acceleration_x := 1, on_ground := True\<rparr>) \<noteq> 0
   \<and> velocity_x (updateX_velocity 16 ((Player_ctor 3 320 224)
       \<lparr>velocity_x := - 1, acceleration_x := 1, on_ground := True\<rparr>)) = - 0.98671875008
   \<and> \<not> \<bar>velocity_x (updateX_velocity 16 ((Player_ctor 3 320 224)
       \<lparr>velocity_x := - 1, acceleration_x := 1, on_ground := True\<rparr>))\<bar> \<le> kMaxSpeedX"
  by (simp add: Player_ctor_def updateX_velocity_def Let_def kMaxSpeedX_def kWalkingAcceleration_def)

subsection \<open>The probes and the shape of the updates\<close>

text \<open>
  A probe whose argument has the sign it asserts returns the wall information of its
  rectangle; the right probe reaches from the middle of the X box to its right edge,
  extended by \<open>delta\<close>.
\<close>

lemma probeRight_info:
  "0 \<le> delta \<Longrightarrow> \<exists>r. rightCollision p delta = Some r
      \<and> probeRight m p delta = Some (getWallCollisionInfo m r)
      \<and> Rectangle_left r
          = player_x p + Rectangle_left kCollisionX + Rectangle_width kCollisionX / 2
      \<and> Rectangle_right r = player_x p + Rectangle_right kCollisionX + delta"
  by (simp add: probeRight_def rightCollision_def Rectangle_left_def Rectangle_right_def
      Rectangle_width_def kCollisionX_def)

lemma probeLeft_info:
  "delta \<le> 0 \<Longrightarrow> \<exists>r. leftCollision p delta = Some r
      \<and> probeLeft m p delta = Some (getWallCollisionInfo m r)"
  by (simp add: probeLeft_def leftCollision_def)

lemma probeTop_info:
  "delta \<le> 0 \<Longrightarrow> \<exists>r. topCollision p delta = Some r
      \<and> probeTop m p delta = Some (getWallCollisionInfo m r)"
  by (simp add: probeTop_def topCollision_def)

lemma probeBottom_info:
  "0 \<le> delta \<Longrightarrow> \<exists>r. bottomCollision p delta = Some r
      \<and> probeBottom m p delta = Some (getWallCollisionInfo m r)"
  by (simp add: probeBottom_def bottomCollision_def)

text \<open>
  Each update is the reaction to the probe in the direction of \<open>delta\<close> followed by the
  reaction to the probe in the other direction.
\<close>

lemma updateX_right_shape:
  assumes "0 < velocity_x (updateX_velocity t p) * real t"
    and "probeRight m (updateX_velocity t p) (velocity_x (updateX_velocity t p) * real t)
           = Some info"
    and "probeLeft m (reactRight tg info (velocity_x (updateX_velocity t p) * real t)
           (updateX_velocity t p)) 0 = Some info'"
  shows "updateX tg t m p
           = Some (recheckLeft tg info'
               (reactRight tg info (velocity_x (updateX_velocity t p) * real t)
                  (updateX_velocity t p)))"
  using assms by (simp add: updateX_def Let_def)

lemma updateX_left_shape:
  assumes "\<not> 0 < velocity_x (updateX_velocity t p) * real t"
    and "probeLeft m (updateX_velocity t p) (velocity_x (updateX_velocity t p) * real t)
           = Some info"
    and "probeRight m (reactLeft tg info (velocity_x (updateX_velocity t p) * real t)
           (updateX_velocity t p)) 0 = Some info'"
  shows "updateX tg t m p
           = Some (recheckRight tg info'
               (reactLeft tg info (velocity_x (updateX_velocity t p) * real t)
                  (updateX_velocity t p)))"
  using assms by (simp add: updateX_def Let_def)

lemma updateY_down_shape:
  assumes "0 < velocity_y (updateY_velocity t p) * real t"
    and "probeBottom m (updateY_velocity t p) (velocity_y (updateY_velocity t p) * real t)
           = Some info"
    and "probeTop m (reactDown tg info (velocity_y (updateY_velocity t p) * real t)
           (updateY_velocity t p)) 0 = Some info'"
  shows "updateY tg t m p
           = Some (recheckUp tg info'
               (reactDown tg info (velocity_y (updateY_velocity t p) * real t)
                  (updateY_velocity t p)))"
  using assms by (simp add: updateY_def Let_def)

lemma updateY_up_shape:
  assumes "\<not> 0 < velocity_y (updateY_velocity t p) * real t"
    and "probeTop m (updateY_velocity t p) (velocity_y (updateY_velocity t p) * real t)
           = Some info"
    and "probeBottom m (reactUp tg info (velocity_y (updateY_velocity t p) * real t)
           (updateY_velocity t p)) 0 = Some info'"
  shows "updateY tg t m p
           = Some (recheckDown tg info'
               (reactUp tg info (velocity_y (updateY_velocity t p) * real t)
                  (updateY_velocity t p)))"
  using assms by (simp add: updateY_def Let_def)

subsection \<open>Moving right into a wall\<close>

text \<open>
  The definitions that evaluate the updates on concrete inputs.
\<close>

lemmas eval_defs = Let_def Player_ctor_def updateX_def updateX_velocity_def probeRight_def
      probeLeft_def rightCollision_def leftCollision_def reactRight_def recheckLeft_def
      reactLeft_def recheckRight_def
      updateY_def updateY_velocity_def probeTop_def
      probeBottom_def topCollision_def bottomCollision_def reactDown_def recheckUp_def
      reactUp_def recheckDown_def
      getWallCollisionInfo_def getCollidingTiles_def single_wall_map_def tiles_map_def tileToGame32_def
      Rectangle_left_def Rectangle_right_def Rectangle_top_def Rectangle_bottom_def
      Rectangle_width_def Rectangle_height_def kCollisionX_def kCollisionY_def kMaxSpeedX_def kMaxSpeedY_def
      kWalkingAcceleration_def kAirAcceleration_def kGravity_def kJumpGravity_def kFriction_def

text \<open>
  C1 (as stated it fails: see the counterexample below). In every horizontal update
  whose position delta (the new \<open>velocity_x\<close> times the elapsed time) is strictly
  positive, the probe rectangle reaches from the middle of the X box to its right edge
  plus \<open>delta\<close>. If the tile query on it returns a wall tile, the update returns with
  \<open>velocity_x = 0\<close>; if it returns none, with the integrated velocity. The update ends
  with the re-check on the left edge of the reacted state. When that re-check finds no
  wall, the returned x is where the right edge of the X box equals \<open>tileToGame\<close> of the
  column of the first wall tile in the order of the query, respectively the old x plus
  exactly \<open>delta\<close>; when it finds one, the returned x is \<open>tileToGame\<close> of that wall's
  column plus the right edge of the X box.
\<close>

theorem updateX_right_final:
  "let p1 = updateX_velocity t p; delta = velocity_x p1 * real t in
   0 < delta \<longrightarrow>
   (\<exists>r p2 info' p'.
       rightCollision p1 delta = Some r
     \<and> Rectangle_left r
          = player_x p + Rectangle_left kCollisionX + Rectangle_width kCollisionX / 2
     \<and> Rectangle_right r = player_x p + Rectangle_right kCollisionX + delta
     \<and> p2 = reactRight tileToGame (getWallCollisionInfo m r) delta p1
     \<and> probeLeft m p2 0 = Some info'
     \<and> updateX tileToGame t m p = Some p'
     \<and> (case find (\<lambda>tile. tile_type tile = WALL_TILE) (getCollidingTiles m r) of
          Some w \<Rightarrow>
            velocity_x p' = 0
            \<and> (\<not> collided info' \<longrightarrow>
                 player_x p' = tileToGame (col w) - Rectangle_right kCollisionX
               \<and> player_x p' + Rectangle_right kCollisionX = tileToGame (col w))
        | None \<Rightarrow>
            velocity_x p' = velocity_x p1
            \<and> (\<not> collided info' \<longrightarrow> player_x p' = player_x p + delta))
     \<and> (collided info' \<longrightarrow>
           player_x p' = tileToGame (info_col info') + Rectangle_right kCollisionX))"
proof -
  define p1 where "p1 = updateX_velocity t p"
  define delta where "delta = velocity_x p1 * real t"
  have "\<exists>r p2 info' p'.
       rightCollision p1 delta = Some r
     \<and> Rectangle_left r
          = player_x p + Rectangle_left kCollisionX + Rectangle_width kCollisionX / 2
     \<and> Rectangle_right r = player_x p + Rectangle_right kCollisionX + delta
     \<and> p2 = reactRight tileToGame (getWallCollisionInfo m r) delta p1
     \<and> probeLeft m p2 0 = Some info'
     \<and> updateX tileToGame t m p = Some p'
     \<and> (case find (\<lambda>tile. tile_type tile = WALL_TILE) (getCollidingTiles m r) of
          Some w \<Rightarrow>
            velocity_x p' = 0
            \<and> (\<not> collided info' \<longrightarrow>
                 player_x p' = tileToGame (col w) - Rectangle_right kCollisionX
               \<and> player_x p' + Rectangle_right kCollisionX = tileToGame (col w))
        | None \<Rightarrow>
            velocity_x p' = velocity_x p1
            \<and> (\<not> collided info' \<longrightarrow> player_x p' = player_x p + delta))
     \<and> (collided info' \<longrightarrow>
           player_x p' = tileToGame (info_col info') + Rectangle_right kCollisionX)"
    if pos: "0 < delta"
  proof -
    have px: "player_x p1 = player_x p"
      by (simp add: p1_def updateX_velocity_def Let_def)
    from pos obtain r where r: "rightCollision p1 delta = Some r"
      "probeRight m p1 delta = Some (getWallCollisionInfo m r)"
      "Rectangle_left r
         = player_x p1 + Rectangle_left kCollisionX + Rectangle_width kCollisionX / 2"
      "Rectangle_right r = player_x p1 + Rectangle_right kCollisionX + delta"
      using probeRight_info [of delta p1 m] by auto
    define p2 where "p2 = reactRight tileToGame (getWallCollisionInfo m r) delta p1"
    obtain info' where info': "probeLeft m p2 0 = Some info'"
      using probeLeft_info [of 0 p2 m] by auto
    define p' where "p' = recheckLeft tileToGame info' p2"
    have upd: "updateX tileToGame t m p = Some p'"
      using updateX_right_shape [of t p m "getWallCollisionInfo m r" tileToGame info']
        pos r(2) info'
      by (simp add: p1_def [symmetric] delta_def [symmetric] p2_def [symmetric]
          p'_def [symmetric])
    have react: "(case find (\<lambda>tile. tile_type tile = WALL_TILE) (getCollidingTiles m r) of
          Some w \<Rightarrow>
            velocity_x p' = 0
            \<and> (\<not> collided info' \<longrightarrow>
                 player_x p' = tileToGame (col w) - Rectangle_right kCollisionX
               \<and> player_x p' + Rectangle_right kCollisionX = tileToGame (col w))
        | None \<Rightarrow>
            velocity_x p' = velocity_x p1
            \<and> (\<not> collided info' \<longrightarrow> player_x p' = player_x p + delta))"
      by (simp add: p'_def p2_def recheckLeft_def reactRight_def getWallCollisionInfo_find
          getCollidingTiles_def px split: option.split)
    have snap: "collided info' \<longrightarrow>
           player_x p' = tileToGame (info_col info') + Rectangle_right kCollisionX"
      by (simp add: p'_def recheckLeft_def)
    show ?thesis
      apply (rule exI [of _ r])
      apply (rule exI [of _ p2])
      apply (rule exI [of _ info'])
      apply (rule exI [of _ p'])
      using r info' upd react snap
      apply (simp only: px p2_def [symmetric] simp_thms)
      done
  qed
  then show ?thesis
    unfolding Let_def p1_def [symmetric] delta_def [symmetric] by (rule impI)
qed

theorem updateX_right_final_witness:
  "0 < velocity_x (updateX_velocity 16 ((Player_ctor 3 324 224)
        \<lparr>velocity_x := 0.15, acceleration_x := 1, on_ground := True\<rparr>)) * real (16::nat)
   \<and> map_option (\<lambda>r. find (\<lambda>tile. tile_type tile = WALL_TILE)
                          (getCollidingTiles (single_wall_map 7 11) r))
        (rightCollision (updateX_velocity 16 ((Player_ctor 3 324 224)
            \<lparr>velocity_x := 0.15, acceleration_x := 1, on_ground := True\<rparr>)) 2.5375)
       = Some (Some \<lparr>row = 7, col = 11, tile_type = WALL_TILE\<rparr>)
   \<and> updateX tileToGame32 16 (single_wall_map 7 11) ((Player_ctor 3 324 224)
        \<lparr>velocity_x := 0.15, acceleration_x := 1, on_ground := True\<rparr>)
       = Some ((Player_ctor 3 326 224)
        \<lparr>velocity_x := 0, acceleration_x := 1, on_ground := True\<rparr>)
   \<and> updateX tileToGame32 16 (\<lambda>rectangle. []) ((Player_ctor 3 324 224)
        \<lparr>velocity_x := 0.15, acceleration_x := 1, on_ground := True\<rparr>)
       = Some ((Player_ctor 3 326.5375 224)
        \<lparr>velocity_x := 0.15859375, acceleration_x := 1, on_ground := True\<rparr>)
   \<and> map_option (\<lambda>r. find (\<lambda>tile. tile_type tile = WALL_TILE)
          (getCollidingTiles
             (tiles_map [\<lparr>row = 7, col = 10, tile_type = OTHER_TILE\<rparr>,
                         \<lparr>row = 7, col = 12, tile_type = WALL_TILE\<rparr>,
                         \<lparr>row = 7, col = 11, tile_type = WALL_TILE\<rparr>]) r))
        (rightCollision (updateX_velocity 250 ((Player_ctor 3 324 224)
            \<lparr>velocity_x := 0.15, acceleration_x := 1, on_ground := True\<rparr>)) 39.6484375)
       = Some (Some \<lparr>row = 7, col = 12, tile_type = WALL_TILE\<rparr>)
   \<and> updateX tileToGame32 250
        (tiles_map [\<lparr>row = 7, col = 10, tile_type = OTHER_TILE\<rparr>,
                    \<lparr>row = 7, col = 12, tile_type = WALL_TILE\<rparr>,
                    \<lparr>row = 7, col = 11, tile_type = WALL_TILE\<rparr>])
        ((Player_ctor 3 324 224)
           \<lparr>velocity_x := 0.15, acceleration_x := 1, on_ground := True\<rparr>)
       = Some ((Player_ctor 3 378 224)
        \<lparr>velocity_x := 0, acceleration_x := 1, on_ground := True\<rparr>)
   \<and> updateX tileToGame32 250
        (tiles_map [\<lparr>row = 7, col = 10, tile_type = OTHER_TILE\<rparr>,
                    \<lparr>row = 7, col = 11, tile_type = WALL_TILE\<rparr>,
                    \<lparr>row = 7, col = 12, tile_type = WALL_TILE\<rparr>])
        ((Player_ctor 3 324 224)
           \<lparr>velocity_x := 0.15, acceleration_x := 1, on_ground := True\<rparr>)
       = Some ((Player_ctor 3 326 224)
        \<lparr>velocity_x := 0, acceleration_x := 1, on_ground := True\<rparr>)"
  using updateX_right_final [where t = 16 and p = "(Player_ctor 3 324 224)
        \<lparr>velocity_x := 0.15, acceleration_x := 1, on_ground := True\<rparr>"
        and m = "single_wall_map 7 11" and tileToGame = tileToGame32]
    updateX_right_final [where t = 250 and p = "(Player_ctor 3 324 224)
        \<lparr>velocity_x := 0.15, acceleration_x := 1, on_ground := True\<rparr>"
        and m = "tiles_map [\<lparr>row = 7, col = 10, tile_type = OTHER_TILE\<rparr>,
                    \<lparr>row = 7, col = 11, tile_type = WALL_TILE\<rparr>,
                    \<lparr>row = 7, col = 12, tile_type = WALL_TILE\<rparr>]"
        and tileToGame = tileToGame32]
  by (simp add: eval_defs)

text \<open>
  C1, counterexample: an airborne player moving right next to the wall tile of column
  9. The probe to the right finds no wall, \<open>delta\<close> is 2.48, and the update returns
  x = 314, not 310 + 2.48: the re-check on the left edge found the wall.
\<close>

theorem updateX_right_recheck_counterexample:
  "0 < velocity_x (updateX_velocity 16 ((Player_ctor 3 310 224)
        \<lparr>velocity_x := 0.15, acceleration_x := 1\<rparr>)) * real (16::nat)
   \<and> map_option (\<lambda>r. find (\<lambda>tile. tile_type tile = WALL_TILE)
                          (getCollidingTiles (single_wall_map 7 9) r))
        (rightCollision (updateX_velocity 16 ((Player_ctor 3 310 224)
            \<lparr>velocity_x := 0.15, acceleration_x := 1\<rparr>)) 2.48)
       = Some None
   \<and> player_x ((Player_ctor 3 310 224)\<lparr>velocity_x := 0.15, acceleration_x := 1\<rparr>)
       + velocity_x (updateX_velocity 16 ((Player_ctor 3 310 224)
            \<lparr>velocity_x := 0.15, acceleration_x := 1\<rparr>)) * real (16::nat) = 312.48
   \<and> map_option player_x (updateX tileToGame32 16 (single_wall_map 7 9)
        ((Player_ctor 3 310 224)\<lparr>velocity_x := 0.15, acceleration_x := 1\<rparr>)) = Some 314"
  by (simp add: eval_defs)

subsection \<open>The re-check of the horizontal update and the grounded flag\<close>

text \<open>
  C5. When \<open>delta\<close> is not positive and the re-check on the right edge finds a wall,
  the update ends with x where the right edge of the X box touches that wall and with
  the grounded flag set; when it finds none, the flag is the one before the update.
  When \<open>delta\<close> is positive, the re-check on the left edge changes x at most, and the
  grounded flag after the update is the one before it.
\<close>

theorem updateX_recheck_ground:
  "let p1 = updateX_velocity t p; delta = velocity_x p1 * real t in
   (\<not> 0 < delta \<longrightarrow>
      (\<exists>info p2 info' p'.
          probeLeft m p1 delta = Some info
        \<and> p2 = reactLeft tileToGame info delta p1
        \<and> probeRight m p2 0 = Some info'
        \<and> updateX tileToGame t m p = Some p'
        \<and> (collided info' \<longrightarrow>
              player_x p' = tileToGame (info_col info') - Rectangle_right kCollisionX
            \<and> player_x p' + Rectangle_right kCollisionX = tileToGame (info_col info')
            \<and> on_ground p'
            \<and> p' = p2\<lparr>player_x := player_x p', on_ground := True\<rparr>)
        \<and> (\<not> collided info' \<longrightarrow> p' = p2 \<and> on_ground p' = on_ground p)))
   \<and> (0 < delta \<longrightarrow>
      (\<exists>info p2 info' p'.
          probeRight m p1 delta = Some info
        \<and> p2 = reactRight tileToGame info delta p1
        \<and> probeLeft m p2 0 = Some info'
        \<and> updateX tileToGame t m p = Some p'
        \<and> on_ground p' = on_ground p
        \<and> p' = p2\<lparr>player_x := player_x p'\<rparr>
        \<and> (collided info' \<longrightarrow>
              player_x p' = tileToGame (info_col info') + Rectangle_right kCollisionX)
        \<and> (\<not> collided info' \<longrightarrow> p' = p2)))"
proof -
  define p1 where "p1 = updateX_velocity t p"
  define delta where "delta = velocity_x p1 * real t"
  have g1: "on_ground p1 = on_ground p"
    by (simp add: p1_def updateX_velocity_def Let_def)
  have left: "\<exists>info p2 info' p'.
          probeLeft m p1 delta = Some info
        \<and> p2 = reactLeft tileToGame info delta p1
        \<and> probeRight m p2 0 = Some info'
        \<and> updateX tileToGame t m p = Some p'
        \<and> (collided info' \<longrightarrow>
              player_x p' = tileToGame (info_col info') - Rectangle_right kCollisionX
            \<and> player_x p' + Rectangle_right kCollisionX = tileToGame (info_col info')
            \<and> on_ground p'
            \<and> p' = p2\<lparr>player_x := player_x p', on_ground := True\<rparr>)
        \<and> (\<not> collided info' \<longrightarrow> p' = p2 \<and> on_ground p' = on_ground p)"
    if neg: "\<not> 0 < delta"
  proof -
    from neg have "delta \<le> 0" by simp
    then obtain info where info: "probeLeft m p1 delta = Some info"
      using probeLeft_info [of delta p1 m] by auto
    define p2 where "p2 = reactLeft tileToGame info delta p1"
    obtain info' where info': "probeRight m p2 0 = Some info'"
      using probeRight_info [of 0 p2 m] by auto
    define p' where "p' = recheckRight tileToGame info' p2"
    have upd: "updateX tileToGame t m p = Some p'"
      using updateX_left_shape [of t p m info tileToGame info'] neg info info'
      by (simp add: p1_def [symmetric] delta_def [symmetric] p2_def [symmetric]
          p'_def [symmetric])
    have g2: "on_ground p2 = on_ground p"
      by (simp add: p2_def reactLeft_def g1)
    have hit: "collided info' \<longrightarrow>
              player_x p' = tileToGame (info_col info') - Rectangle_right kCollisionX
            \<and> player_x p' + Rectangle_right kCollisionX = tileToGame (info_col info')
            \<and> on_ground p'
            \<and> p' = p2\<lparr>player_x := player_x p', on_ground := True\<rparr>"
      by (simp add: p'_def recheckRight_def)
    have miss: "\<not> collided info' \<longrightarrow> p' = p2 \<and> on_ground p' = on_ground p"
      by (simp add: p'_def recheckRight_def g2)
    show ?thesis
      apply (rule exI [of _ info])
      apply (rule exI [of _ p2])
      apply (rule exI [of _ info'])
      apply (rule exI [of _ p'])
      using info info' upd hit miss
      apply (simp only: p2_def [symmetric] simp_thms)
      done
  qed
  have right: "\<exists>info p2 info' p'.
          probeRight m p1 delta = Some info
        \<and> p2 = reactRight tileToGame info delta p1
        \<and> probeLeft m p2 0 = Some info'
        \<and> updateX tileToGame t m p = Some p'
        \<and> on_ground p' = on_ground p
        \<and> p' = p2\<lparr>player_x := player_x p'\<rparr>
        \<and> (collided info' \<longrightarrow>
              player_x p' = tileToGame (info_col info') + Rectangle_right kCollisionX)
        \<and> (\<not> collided info' \<longrightarrow> p' = p2)"
    if pos: "0 < delta"
  proof -
    from pos have "0 \<le> delta" by simp
    then obtain info where info: "probeRight m p1 delta = Some info"
      using probeRight_info [of delta p1 m] by auto
    define p2 where "p2 = reactRight tileToGame info delta p1"
    obtain info' where info': "probeLeft m p2 0 = Some info'"
      using probeLeft_info [of 0 p2 m] by auto
    define p' where "p' = recheckLeft tileToGame info' p2"
    have upd: "updateX tileToGame t m p = Some p'"
      using updateX_right_shape [of t p m info tileToGame info'] pos info info'
      by (simp add: p1_def [symmetric] delta_def [symmetric] p2_def [symmetric]
          p'_def [symmetric])
    have g2: "on_ground p2 = on_ground p"
      by (simp add: p2_def reactRight_def g1)
    have facts: "on_ground p' = on_ground p" "p' = p2\<lparr>player_x := player_x p'\<rparr>"
      "collided info' \<longrightarrow>
              player_x p' = tileToGame (info_col info') + Rectangle_right kCollisionX"
      "\<not> collided info' \<longrightarrow> p' = p2"
      by (simp_all add: p'_def recheckLeft_def g2)
    show ?thesis
      apply (rule exI [of _ info])
      apply (rule exI [of _ p2])
      apply (rule exI [of _ info'])
      apply (rule exI [of _ p'])
      using info info' upd facts
      apply (simp only: p2_def [symmetric] simp_thms)
      done
  qed
  from left right show ?thesis
    unfolding Let_def p1_def [symmetric] delta_def [symmetric] by blast
qed

theorem updateX_recheck_ground_witness:
  "\<not> 0 < velocity_x (updateX_velocity 16 ((Player_ctor 3 330 224)
        \<lparr>velocity_x := - 0.15, acceleration_x := - 1\<rparr>)) * real (16::nat)
   \<and> probeRight (single_wall_map 7 11) ((Player_ctor 3 327.52 224)
        \<lparr>velocity_x := - 0.155, acceleration_x := - 1\<rparr>) 0
       = Some \<lparr>collided = True, info_row = 7, info_col = 11\<rparr>
   \<and> probeLeft (single_wall_map 7 9) ((Player_ctor 3 312.48 224)
        \<lparr>velocity_x := 0.155, acceleration_x := 1\<rparr>) 0
       = Some \<lparr>collided = True, info_row = 7, info_col = 9\<rparr>
   \<and> updateX tileToGame32 16 (single_wall_map 7 11) ((Player_ctor 3 330 224)
        \<lparr>velocity_x := - 0.15, acceleration_x := - 1\<rparr>)
       = Some ((Player_ctor 3 326 224)
        \<lparr>velocity_x := - 0.155, acceleration_x := - 1, on_ground := True\<rparr>)
   \<and> 0 < velocity_x (updateX_velocity 16 ((Player_ctor 3 310 224)
        \<lparr>velocity_x := 0.15, acceleration_x := 1\<rparr>)) * real (16::nat)
   \<and> updateX tileToGame32 16 (single_wall_map 7 9) ((Player_ctor 3 310 224)
        \<lparr>velocity_x := 0.15, acceleration_x := 1\<rparr>)
       = Some ((Player_ctor 3 314 224)
        \<lparr>velocity_x := 0.155, acceleration_x := 1, on_ground := False\<rparr>)"
  using updateX_recheck_ground [of 16 "(Player_ctor 3 330 224)
        \<lparr>velocity_x := - 0.15, acceleration_x := - 1\<rparr>" "single_wall_map 7 11" tileToGame32]
    updateX_recheck_ground [of 16 "(Player_ctor 3 310 224)
        \<lparr>velocity_x := 0.15, acceleration_x := 1\<rparr>" "single_wall_map 7 9" tileToGame32]
  by (simp add: Let_def Player_ctor_def updateX_def updateX_velocity_def probeRight_def
      probeLeft_def rightCollision_def leftCollision_def reactRight_def recheckLeft_def
      reactLeft_def recheckRight_def
      getWallCollisionInfo_def getCollidingTiles_def single_wall_map_def tileToGame32_def
      Rectangle_left_def Rectangle_right_def Rectangle_top_def Rectangle_bottom_def
      Rectangle_width_def Rectangle_height_def kCollisionX_def kMaxSpeedX_def
      kAirAcceleration_def)

subsection \<open>Vertical velocity\<close>

text \<open>
  C3 (as stated it fails: see the counterexample below). The velocity step of every
  vertical update yields \<open>min (velocity_y + g * elapsed_time) kMaxSpeedY\<close>, where \<open>g\<close>
  is \<open>kJumpGravity\<close> exactly when the jump is held and \<open>velocity_y\<close> is negative, and
  \<open>kGravity\<close> otherwise. That value never exceeds \<open>kMaxSpeedY\<close>, and below that bound
  it is the integrated velocity itself, however negative: there is no clamp on the way
  up. The update returns with that velocity when the probe in the direction of \<open>delta\<close>
  finds no wall and with 0 when it finds one; either way the returned velocity is at
  most \<open>kMaxSpeedY\<close>.
\<close>

theorem updateY_velocity_final:
  "let g = (if jump_active p \<and> velocity_y p < 0 then kJumpGravity else kGravity);
       v1 = min (velocity_y p + g * real t) kMaxSpeedY;
       p1 = updateY_velocity t p;
       delta = v1 * real t in
     velocity_y p1 = v1
   \<and> v1 \<le> kMaxSpeedY
   \<and> (velocity_y p + g * real t \<le> kMaxSpeedY \<longrightarrow> v1 = velocity_y p + g * real t)
   \<and> (\<exists>info p'.
         (if 0 < delta then probeBottom m p1 delta else probeTop m p1 delta) = Some info
       \<and> updateY tileToGame t m p = Some p'
       \<and> velocity_y p' = (if collided info then 0 else v1)
       \<and> velocity_y p' \<le> kMaxSpeedY)"
proof -
  define g where "g = (if jump_active p \<and> velocity_y p < 0 then kJumpGravity else kGravity)"
  define v1 where "v1 = min (velocity_y p + g * real t) kMaxSpeedY"
  define p1 where "p1 = updateY_velocity t p"
  define delta where "delta = v1 * real t"
  have vp1: "velocity_y p1 = v1"
    by (simp add: p1_def v1_def g_def updateY_velocity_def Let_def)
  have le: "v1 \<le> kMaxSpeedY"
    by (simp add: v1_def)
  have m0: "0 \<le> kMaxSpeedY" by (simp add: kMaxSpeedY_def)
  have free: "velocity_y p + g * real t \<le> kMaxSpeedY \<longrightarrow> v1 = velocity_y p + g * real t"
    by (simp add: v1_def)
  have d: "delta = velocity_y p1 * real t"
    by (simp add: delta_def vp1)
  have upd: "\<exists>info p'.
         (if 0 < delta then probeBottom m p1 delta else probeTop m p1 delta) = Some info
       \<and> updateY tileToGame t m p = Some p'
       \<and> velocity_y p' = (if collided info then 0 else v1)
       \<and> velocity_y p' \<le> kMaxSpeedY"
  proof (cases "0 < delta")
    case True
    then have "0 \<le> delta" by simp
    then obtain info where info: "probeBottom m p1 delta = Some info"
      using probeBottom_info [of delta p1 m] by auto
    define p2 where "p2 = reactDown tileToGame info delta p1"
    obtain info' where info': "probeTop m p2 0 = Some info'"
      using probeTop_info [of 0 p2 m] by auto
    define p' where "p' = recheckUp tileToGame info' p2"
    have "updateY tileToGame t m p = Some p'"
      using updateY_down_shape [of t p m info tileToGame info'] True info info'
      by (simp add: p1_def [symmetric] d [symmetric] p2_def [symmetric] p'_def [symmetric])
    moreover have "velocity_y p' = (if collided info then 0 else v1)"
      by (simp add: p'_def p2_def recheckUp_def reactDown_def vp1)
    ultimately show ?thesis
      using True info le m0 by auto
  next
    case False
    then have "delta \<le> 0" by simp
    then obtain info where info: "probeTop m p1 delta = Some info"
      using probeTop_info [of delta p1 m] by auto
    define p2 where "p2 = reactUp tileToGame info delta p1"
    obtain info' where info': "probeBottom m p2 0 = Some info'"
      using probeBottom_info [of 0 p2 m] by auto
    define p' where "p' = recheckDown tileToGame info' p2"
    have "updateY tileToGame t m p = Some p'"
      using updateY_up_shape [of t p m info tileToGame info'] False info info'
      by (simp add: p1_def [symmetric] d [symmetric] p2_def [symmetric] p'_def [symmetric])
    moreover have "velocity_y p' = (if collided info then 0 else v1)"
      by (simp add: p'_def p2_def recheckDown_def reactUp_def vp1)
    ultimately show ?thesis
      using False info le m0 by auto
  qed
  from vp1 le free upd show ?thesis
    unfolding Let_def g_def [symmetric] v1_def [symmetric] p1_def [symmetric]
      delta_def [symmetric]
    by (intro conjI)
qed

theorem updateY_velocity_final_witness:
  "map_option velocity_y (updateY tileToGame32 16 (\<lambda>rectangle. []) (Player_ctor 3 320 224))
     = Some 0.0125
   \<and> map_option velocity_y (updateY tileToGame32 16 (single_wall_map 8 10)
        (Player_ctor 3 320 224)) = Some 0
   \<and> map_option velocity_y (updateY tileToGame32 16 (\<lambda>rectangle. [])
        ((Player_ctor 3 320 224)\<lparr>velocity_y := - 1, jump_active := True\<rparr>)) = Some (- 0.995)
   \<and> - 0.995 < - kMaxSpeedY
   \<and> map_option velocity_y (updateY tileToGame32 16 (\<lambda>rectangle. [])
        ((Player_ctor 3 320 224)\<lparr>velocity_y := - 1\<rparr>)) = Some (- 0.9875)
   \<and> map_option velocity_y (updateY tileToGame32 16 (\<lambda>rectangle. [])
        ((Player_ctor 3 320 224)\<lparr>velocity_y := 0.295, jump_active := True\<rparr>))
       = Some kMaxSpeedY"
  using updateY_velocity_final [where t = 16 and p = "Player_ctor 3 320 224"
      and m = "\<lambda>rectangle. []" and tileToGame = tileToGame32]
    updateY_velocity_final [where t = 16 and p = "Player_ctor 3 320 224"
      and m = "single_wall_map 8 10" and tileToGame = tileToGame32]
    updateY_velocity_final [where t = 16
      and p = "(Player_ctor 3 320 224)\<lparr>velocity_y := - 1, jump_active := True\<rparr>"
      and m = "\<lambda>rectangle. []" and tileToGame = tileToGame32]
    updateY_velocity_final [where t = 16
      and p = "(Player_ctor 3 320 224)\<lparr>velocity_y := 0.295, jump_active := True\<rparr>"
      and m = "\<lambda>rectangle. []" and tileToGame = tileToGame32]
  by (simp add: eval_defs)

text \<open>
  C3, counterexample: a player at rest on the wall tile of row 8, updated over 16 ms.
  The formula gives 0.0125, the update returns with \<open>velocity_y = 0\<close>.
\<close>

theorem updateY_velocity_collision_counterexample:
  "min (velocity_y ((Player_ctor 3 320 224)\<lparr>on_ground := True\<rparr>)
        + (if jump_active ((Player_ctor 3 320 224)\<lparr>on_ground := True\<rparr>)
              \<and> velocity_y ((Player_ctor 3 320 224)\<lparr>on_ground := True\<rparr>) < 0
           then kJumpGravity else kGravity) * real (16::nat))
       kMaxSpeedY = 0.0125
   \<and> map_option velocity_y (updateY tileToGame32 16 (single_wall_map 8 10)
        ((Player_ctor 3 320 224)\<lparr>on_ground := True\<rparr>)) = Some 0"
  by (simp add: eval_defs)

subsection \<open>The grounded flag after a vertical update\<close>

text \<open>
  C4 (as stated it fails: see the counterexample below). After a vertical update with
  a positive \<open>delta\<close>, a wall found below leaves the player grounded with
  \<open>velocity_y = 0\<close>, and no wall found leaves the player not grounded with the
  integrated velocity. With a \<open>delta\<close> that is not positive, a wall found above sets
  \<open>velocity_y\<close> to 0, and the reaction clears the grounded flag whether a wall was
  found or not; the re-check below then sets the flag again when it finds a wall, so
  that after the update the player is grounded exactly when that re-check found one.
\<close>

theorem updateY_grounded:
  "let p1 = updateY_velocity t p; delta = velocity_y p1 * real t in
   (0 < delta \<longrightarrow>
      (\<exists>info p'.
          probeBottom m p1 delta = Some info
        \<and> updateY tileToGame t m p = Some p'
        \<and> (collided info \<longrightarrow> on_ground p' \<and> velocity_y p' = 0)
        \<and> (\<not> collided info \<longrightarrow> \<not> on_ground p' \<and> velocity_y p' = velocity_y p1)))
   \<and> (\<not> 0 < delta \<longrightarrow>
      (\<exists>info p2 info' p'.
          probeTop m p1 delta = Some info
        \<and> p2 = reactUp tileToGame info delta p1
        \<and> \<not> on_ground p2
        \<and> probeBottom m p2 0 = Some info'
        \<and> updateY tileToGame t m p = Some p'
        \<and> (collided info \<longrightarrow> velocity_y p' = 0)
        \<and> (\<not> collided info \<longrightarrow> velocity_y p' = velocity_y p1)
        \<and> on_ground p' = collided info'))"
proof -
  define p1 where "p1 = updateY_velocity t p"
  define delta where "delta = velocity_y p1 * real t"
  have down: "\<exists>info p'.
          probeBottom m p1 delta = Some info
        \<and> updateY tileToGame t m p = Some p'
        \<and> (collided info \<longrightarrow> on_ground p' \<and> velocity_y p' = 0)
        \<and> (\<not> collided info \<longrightarrow> \<not> on_ground p' \<and> velocity_y p' = velocity_y p1)"
    if pos: "0 < delta"
  proof -
    from pos have "0 \<le> delta" by simp
    then obtain info where info: "probeBottom m p1 delta = Some info"
      using probeBottom_info [of delta p1 m] by auto
    define p2 where "p2 = reactDown tileToGame info delta p1"
    obtain info' where info': "probeTop m p2 0 = Some info'"
      using probeTop_info [of 0 p2 m] by auto
    define p' where "p' = recheckUp tileToGame info' p2"
    have upd: "updateY tileToGame t m p = Some p'"
      using updateY_down_shape [of t p m info tileToGame info'] pos info info'
      by (simp add: p1_def [symmetric] delta_def [symmetric] p2_def [symmetric]
          p'_def [symmetric])
    have facts: "collided info \<longrightarrow> on_ground p' \<and> velocity_y p' = 0"
      "\<not> collided info \<longrightarrow> \<not> on_ground p' \<and> velocity_y p' = velocity_y p1"
      by (simp_all add: p'_def p2_def recheckUp_def reactDown_def)
    show ?thesis
      apply (rule exI [of _ info])
      apply (rule exI [of _ p'])
      using info upd facts
      apply (simp only: simp_thms)
      done
  qed
  have up: "\<exists>info p2 info' p'.
          probeTop m p1 delta = Some info
        \<and> p2 = reactUp tileToGame info delta p1
        \<and> \<not> on_ground p2
        \<and> probeBottom m p2 0 = Some info'
        \<and> updateY tileToGame t m p = Some p'
        \<and> (collided info \<longrightarrow> velocity_y p' = 0)
        \<and> (\<not> collided info \<longrightarrow> velocity_y p' = velocity_y p1)
        \<and> on_ground p' = collided info'"
    if neg: "\<not> 0 < delta"
  proof -
    from neg have "delta \<le> 0" by simp
    then obtain info where info: "probeTop m p1 delta = Some info"
      using probeTop_info [of delta p1 m] by auto
    define p2 where "p2 = reactUp tileToGame info delta p1"
    obtain info' where info': "probeBottom m p2 0 = Some info'"
      using probeBottom_info [of 0 p2 m] by auto
    define p' where "p' = recheckDown tileToGame info' p2"
    have upd: "updateY tileToGame t m p = Some p'"
      using updateY_up_shape [of t p m info tileToGame info'] neg info info'
      by (simp add: p1_def [symmetric] delta_def [symmetric] p2_def [symmetric]
          p'_def [symmetric])
    have air: "\<not> on_ground p2"
      by (simp add: p2_def reactUp_def)
    have facts: "collided info \<longrightarrow> velocity_y p' = 0"
      "\<not> collided info \<longrightarrow> velocity_y p' = velocity_y p1"
      "on_ground p' = collided info'"
      using air by (simp_all add: p'_def recheckDown_def) (simp_all add: p2_def reactUp_def)
    show ?thesis
      apply (rule exI [of _ info])
      apply (rule exI [of _ p2])
      apply (rule exI [of _ info'])
      apply (rule exI [of _ p'])
      using info info' upd air facts
      apply (simp only: p2_def [symmetric] simp_thms)
      done
  qed
  from down up show ?thesis
    unfolding Let_def p1_def [symmetric] delta_def [symmetric] by blast
qed

theorem updateY_grounded_witness:
  "0 < velocity_y (updateY_velocity 16 (Player_ctor 3 320 224)) * real (16::nat)
   \<and> probeBottom (single_wall_map 8 10) (updateY_velocity 16 (Player_ctor 3 320 224)) 0.2
       = Some \<lparr>collided = True, info_row = 8, info_col = 10\<rparr>
   \<and> \<not> 0 < velocity_y (updateY_velocity 16 ((Player_ctor 3 320 224)
        \<lparr>velocity_y := - 0.25, on_ground := True, jump_active := True\<rparr>)) * real (16::nat)
   \<and> updateY tileToGame32 16 (single_wall_map 8 10) (Player_ctor 3 320 224)
     = Some ((Player_ctor 3 320 224)\<lparr>on_ground := True\<rparr>)
   \<and> updateY tileToGame32 0 (single_wall_map 8 10) ((Player_ctor 3 320 224)\<lparr>on_ground := True\<rparr>)
     = Some ((Player_ctor 3 320 224)\<lparr>on_ground := True\<rparr>)
   \<and> updateY tileToGame32 16 (single_wall_map 8 10)
        ((Player_ctor 3 320 224)\<lparr>velocity_y := - 0.25, on_ground := True, jump_active := True\<rparr>)
     = Some ((Player_ctor 3 320 220.08)
          \<lparr>velocity_y := - 0.245, on_ground := False, jump_active := True\<rparr>)"
  using updateY_grounded [of 16 "Player_ctor 3 320 224" "single_wall_map 8 10" tileToGame32]
    updateY_grounded [of 0 "(Player_ctor 3 320 224)\<lparr>on_ground := True\<rparr>"
      "single_wall_map 8 10" tileToGame32]
    updateY_grounded [of 16 "(Player_ctor 3 320 224)
      \<lparr>velocity_y := - 0.25, on_ground := True, jump_active := True\<rparr>"
      "single_wall_map 8 10" tileToGame32]
  by (simp add: Let_def Player_ctor_def updateY_def updateY_velocity_def probeTop_def
      probeBottom_def topCollision_def bottomCollision_def reactDown_def recheckUp_def
      reactUp_def recheckDown_def
      getWallCollisionInfo_def getCollidingTiles_def single_wall_map_def tileToGame32_def
      Rectangle_left_def Rectangle_right_def Rectangle_top_def Rectangle_bottom_def
      Rectangle_width_def Rectangle_height_def kCollisionY_def kMaxSpeedY_def
      kGravity_def kJumpGravity_def)

text \<open>
  C4, counterexample: a grounded player at rest on the wall tile of row 8, updated
  with an elapsed time of 0 ms. \<open>delta\<close> is 0, the probe in the direction of motion
  finds no wall, and the player is grounded after the update.
\<close>

theorem updateY_grounded_counterexample:
  "\<not> 0 < velocity_y (updateY_velocity 0 ((Player_ctor 3 320 224)\<lparr>on_ground := True\<rparr>))
           * real (0::nat)
   \<and> map_option collided
        (probeTop (single_wall_map 8 10)
           (updateY_velocity 0 ((Player_ctor 3 320 224)\<lparr>on_ground := True\<rparr>))
           (velocity_y (updateY_velocity 0 ((Player_ctor 3 320 224)\<lparr>on_ground := True\<rparr>))
              * real (0::nat)))
       = Some False
   \<and> map_option on_ground
        (updateY tileToGame32 0 (single_wall_map 8 10)
           ((Player_ctor 3 320 224)\<lparr>on_ground := True\<rparr>))
       = Some True"
  by (simp add: Let_def Player_ctor_def updateY_def updateY_velocity_def probeTop_def
      probeBottom_def topCollision_def bottomCollision_def
      reactUp_def recheckDown_def
      getWallCollisionInfo_def getCollidingTiles_def single_wall_map_def tileToGame32_def
      Rectangle_left_def Rectangle_right_def Rectangle_top_def Rectangle_bottom_def
      Rectangle_width_def Rectangle_height_def kCollisionY_def kMaxSpeedY_def
      kGravity_def)

subsection \<open>Friction\<close>

text \<open>
  C6 (as stated it fails: see the counterexample below). With a zero acceleration
  intent on the ground, the velocity step of the horizontal update follows the
  friction rule of the spec at the rate \<open>kFriction\<close>: a positive \<open>velocity_x\<close> becomes
  \<open>max 0 (velocity_x - kFriction * elapsed_time)\<close> and a negative one
  \<open>min 0 (velocity_x + kFriction * elapsed_time)\<close>. The update returns with that
  velocity when the probe in the direction of \<open>delta\<close> finds no wall and with 0 when it
  finds one; either way the returned velocity lies between the old one and zero, so
  it never changes sign. The rule at velocity 0.1, 16 ms and friction 0.0005 yields
  0.092.
\<close>

theorem updateX_friction:
  "(acceleration_x p = 0 \<and> on_ground p \<longrightarrow>
     (let p1 = updateX_velocity t p; v1 = velocity_x p1; delta = v1 * real t in
        v1 = spec_friction kFriction t (velocity_x p)
      \<and> (velocity_x p > 0 \<longrightarrow> v1 = max 0 (velocity_x p - kFriction * real t))
      \<and> (velocity_x p < 0 \<longrightarrow> v1 = min 0 (velocity_x p + kFriction * real t))
      \<and> (\<exists>info p'.
            (if 0 < delta then probeRight m p1 delta else probeLeft m p1 delta) = Some info
          \<and> updateX tileToGame t m p = Some p'
          \<and> velocity_x p' = (if collided info then 0 else v1)
          \<and> (0 \<le> velocity_x p \<longrightarrow> 0 \<le> velocity_x p' \<and> velocity_x p' \<le> velocity_x p)
          \<and> (velocity_x p \<le> 0 \<longrightarrow> velocity_x p \<le> velocity_x p' \<and> velocity_x p' \<le> 0))))
   \<and> spec_friction 0.0005 16 0.1 = 0.092"
proof -
  have inst: "spec_friction 0.0005 16 0.1 = 0.092"
    by (simp add: spec_friction_def)
  have main: "let p1 = updateX_velocity t p; v1 = velocity_x p1; delta = v1 * real t in
        v1 = spec_friction kFriction t (velocity_x p)
      \<and> (velocity_x p > 0 \<longrightarrow> v1 = max 0 (velocity_x p - kFriction * real t))
      \<and> (velocity_x p < 0 \<longrightarrow> v1 = min 0 (velocity_x p + kFriction * real t))
      \<and> (\<exists>info p'.
            (if 0 < delta then probeRight m p1 delta else probeLeft m p1 delta) = Some info
          \<and> updateX tileToGame t m p = Some p'
          \<and> velocity_x p' = (if collided info then 0 else v1)
          \<and> (0 \<le> velocity_x p \<longrightarrow> 0 \<le> velocity_x p' \<and> velocity_x p' \<le> velocity_x p)
          \<and> (velocity_x p \<le> 0 \<longrightarrow> velocity_x p \<le> velocity_x p' \<and> velocity_x p' \<le> 0))"
    if z: "acceleration_x p = 0" and gr: "on_ground p"
  proof -
    define p1 where "p1 = updateX_velocity t p"
    define v1 where "v1 = velocity_x p1"
    define delta where "delta = v1 * real t"
    have f0: "0 \<le> kFriction * real t"
      by (simp add: kFriction_def)
    have rule: "v1 = spec_friction kFriction t (velocity_x p)"
      using z gr by (simp add: v1_def p1_def updateX_velocity_def Let_def spec_friction_def)
    have pos: "velocity_x p > 0 \<longrightarrow> v1 = max 0 (velocity_x p - kFriction * real t)"
      and neg: "velocity_x p < 0 \<longrightarrow> v1 = min 0 (velocity_x p + kFriction * real t)"
      by (simp_all add: rule spec_friction_def)
    have s1: "0 \<le> velocity_x p \<longrightarrow> 0 \<le> v1 \<and> v1 \<le> velocity_x p"
      and s2: "velocity_x p \<le> 0 \<longrightarrow> velocity_x p \<le> v1 \<and> v1 \<le> 0"
      using f0 by (auto simp add: rule spec_friction_def max_def min_def)
    have d: "delta = velocity_x p1 * real t"
      by (simp add: delta_def v1_def)
    have upd: "\<exists>info p'.
            (if 0 < delta then probeRight m p1 delta else probeLeft m p1 delta) = Some info
          \<and> updateX tileToGame t m p = Some p'
          \<and> velocity_x p' = (if collided info then 0 else v1)"
    proof (cases "0 < delta")
      case True
      then have "0 \<le> delta" by simp
      then obtain info where info: "probeRight m p1 delta = Some info"
        using probeRight_info [of delta p1 m] by auto
      define p2 where "p2 = reactRight tileToGame info delta p1"
      obtain info' where info': "probeLeft m p2 0 = Some info'"
        using probeLeft_info [of 0 p2 m] by auto
      define p' where "p' = recheckLeft tileToGame info' p2"
      have "updateX tileToGame t m p = Some p'"
        using updateX_right_shape [of t p m info tileToGame info'] True info info'
        by (simp add: p1_def [symmetric] d [symmetric] p2_def [symmetric] p'_def [symmetric])
      moreover have "velocity_x p' = (if collided info then 0 else v1)"
        by (simp add: p'_def p2_def recheckLeft_def reactRight_def v1_def)
      ultimately show ?thesis
        using True info by auto
    next
      case False
      then have "delta \<le> 0" by simp
      then obtain info where info: "probeLeft m p1 delta = Some info"
        using probeLeft_info [of delta p1 m] by auto
      define p2 where "p2 = reactLeft tileToGame info delta p1"
      obtain info' where info': "probeRight m p2 0 = Some info'"
        using probeRight_info [of 0 p2 m] by auto
      define p' where "p' = recheckRight tileToGame info' p2"
      have "updateX tileToGame t m p = Some p'"
        using updateX_left_shape [of t p m info tileToGame info'] False info info'
        by (simp add: p1_def [symmetric] d [symmetric] p2_def [symmetric] p'_def [symmetric])
      moreover have "velocity_x p' = (if collided info then 0 else v1)"
        by (simp add: p'_def p2_def recheckRight_def reactLeft_def v1_def)
      ultimately show ?thesis
        using False info by auto
    qed
    then obtain info p' where ip:
      "(if 0 < delta then probeRight m p1 delta else probeLeft m p1 delta) = Some info"
      "updateX tileToGame t m p = Some p'"
      "velocity_x p' = (if collided info then 0 else v1)"
      by blast
    from ip(3) s1 have t1:
      "0 \<le> velocity_x p \<longrightarrow> 0 \<le> velocity_x p' \<and> velocity_x p' \<le> velocity_x p"
      by (cases "collided info") simp_all
    from ip(3) s2 have t2:
      "velocity_x p \<le> 0 \<longrightarrow> velocity_x p \<le> velocity_x p' \<and> velocity_x p' \<le> 0"
      by (cases "collided info") simp_all
    from ip t1 t2 have ex: "\<exists>info p'.
            (if 0 < delta then probeRight m p1 delta else probeLeft m p1 delta) = Some info
          \<and> updateX tileToGame t m p = Some p'
          \<and> velocity_x p' = (if collided info then 0 else v1)
          \<and> (0 \<le> velocity_x p \<longrightarrow> 0 \<le> velocity_x p' \<and> velocity_x p' \<le> velocity_x p)
          \<and> (velocity_x p \<le> 0 \<longrightarrow> velocity_x p \<le> velocity_x p' \<and> velocity_x p' \<le> 0)"
      by blast
    from rule pos neg ex show ?thesis
      unfolding Let_def p1_def [symmetric] v1_def [symmetric] delta_def [symmetric]
      by (intro conjI)
  qed
  from main inst show ?thesis by blast
qed

theorem updateX_friction_witness:
  "map_option velocity_x (updateX tileToGame32 16 (\<lambda>rectangle. [])
        ((Player_ctor 3 325 224)\<lparr>velocity_x := 0.1, on_ground := True\<rparr>))
     = Some (0.1 - 16 * kFriction)
   \<and> map_option velocity_x (updateX tileToGame32 16 (single_wall_map 7 11)
        ((Player_ctor 3 325 224)\<lparr>velocity_x := 0.1, on_ground := True\<rparr>)) = Some 0
   \<and> map_option velocity_x (updateX tileToGame32 16 (\<lambda>rectangle. [])
        ((Player_ctor 3 325 224)\<lparr>velocity_x := - 0.1, on_ground := True\<rparr>))
     = Some (16 * kFriction - 0.1)
   \<and> map_option velocity_x (updateX tileToGame32 16 (\<lambda>rectangle. [])
        ((Player_ctor 3 325 224)\<lparr>velocity_x := 0.005, on_ground := True\<rparr>)) = Some 0"
  using updateX_friction [where t = 16
      and p = "(Player_ctor 3 325 224)\<lparr>velocity_x := 0.1, on_ground := True\<rparr>"
      and m = "\<lambda>rectangle. []" and tileToGame = tileToGame32]
    updateX_friction [where t = 16
      and p = "(Player_ctor 3 325 224)\<lparr>velocity_x := 0.1, on_ground := True\<rparr>"
      and m = "single_wall_map 7 11" and tileToGame = tileToGame32]
    updateX_friction [where t = 16
      and p = "(Player_ctor 3 325 224)\<lparr>velocity_x := - 0.1, on_ground := True\<rparr>"
      and m = "\<lambda>rectangle. []" and tileToGame = tileToGame32]
  by (simp add: eval_defs spec_friction_def)

text \<open>
  C6, counterexample: a grounded player with zero intent and \<open>velocity_x = 0.1\<close> next to
  the wall tile of column 11, updated over 16 ms. The friction formula is positive, at
  the rate of the source and at the rate 0.0005 alike, and the update returns with
  \<open>velocity_x = 0\<close>.
\<close>

theorem updateX_friction_collision_counterexample:
  "acceleration_x ((Player_ctor 3 325 224)\<lparr>velocity_x := 0.1, on_ground := True\<rparr>) = 0
   \<and> on_ground ((Player_ctor 3 325 224)\<lparr>velocity_x := 0.1, on_ground := True\<rparr>)
   \<and> 0 < velocity_x ((Player_ctor 3 325 224)\<lparr>velocity_x := 0.1, on_ground := True\<rparr>)
   \<and> 0 < max 0 (velocity_x ((Player_ctor 3 325 224)\<lparr>velocity_x := 0.1, on_ground := True\<rparr>)
                 - kFriction * real (16::nat))
   \<and> 0 < max 0 (velocity_x ((Player_ctor 3 325 224)\<lparr>velocity_x := 0.1, on_ground := True\<rparr>)
                 - 0.0005 * real (16::nat))
   \<and> map_option velocity_x (updateX tileToGame32 16 (single_wall_map 7 11)
        ((Player_ctor 3 325 224)\<lparr>velocity_x := 0.1, on_ground := True\<rparr>)) = Some 0"
  by (simp add: eval_defs)

subsection \<open>Jumping\<close>

text \<open>
  C8 (as stated it fails: see the counterexample below). \<^verbatim>\<open>startJump\<close> sets the
  jump-held flag, clears the interacting flag and sets \<open>velocity_y\<close> to \<open>- kJumpSpeed\<close>
  when the player is grounded; when airborne it leaves \<open>velocity_y\<close> as it is.
  \<^verbatim>\<open>stopJump\<close> clears the jump-held flag and nothing else. After a grounded
  \<^verbatim>\<open>startJump\<close> the grounded flag is still set, so the classifier reports WALKING or
  STANDING; it reports JUMPING after the following vertical update of less than 800 ms
  whose probe above and re-check below find no wall.
\<close>

theorem startJump_stopJump:
  "jump_active (startJump p)
   \<and> velocity_y (startJump p) = (if on_ground p then - kJumpSpeed else velocity_y p)
   \<and> startJump p = (if on_ground p
        then p\<lparr>jump_active := True, interacting := False, velocity_y := - kJumpSpeed\<rparr>
        else p\<lparr>jump_active := True, interacting := False\<rparr>)
   \<and> stopJump p = p\<lparr>jump_active := False\<rparr>
   \<and> (on_ground p \<longrightarrow>
        on_ground (startJump p)
        \<and> motion_type (fst (getSpriteState (startJump p)))
            = (if acceleration_x p \<noteq> 0 then WALKING else STANDING))
   \<and> (let q = updateY_velocity t (startJump p); delta = velocity_y q * real t in
        on_ground p \<and> t < 800
        \<and> map_option collided (probeTop m q delta) = Some False
        \<and> map_option collided
            (probeBottom m (q\<lparr>player_y := player_y q + delta, on_ground := False\<rparr>) 0)
            = Some False
      \<longrightarrow> (\<exists>p'. updateY tileToGame t m (startJump p) = Some p'
            \<and> \<not> on_ground p'
            \<and> velocity_y p' = kJumpGravity * real t - kJumpSpeed
            \<and> velocity_y p' < 0
            \<and> motion_type (fst (getSpriteState p')) = JUMPING))"
proof -
  define q where "q = updateY_velocity t (startJump p)"
  define delta where "delta = velocity_y q * real t"
  have basic: "jump_active (startJump p)"
    "velocity_y (startJump p) = (if on_ground p then - kJumpSpeed else velocity_y p)"
    "startJump p = (if on_ground p
        then p\<lparr>jump_active := True, interacting := False, velocity_y := - kJumpSpeed\<rparr>
        else p\<lparr>jump_active := True, interacting := False\<rparr>)"
    "stopJump p = p\<lparr>jump_active := False\<rparr>"
    by (simp_all add: startJump_def stopJump_def Let_def)
  have still: "on_ground p \<longrightarrow>
        on_ground (startJump p)
        \<and> motion_type (fst (getSpriteState (startJump p)))
            = (if acceleration_x p \<noteq> 0 then WALKING else STANDING)"
    by (simp add: startJump_def getSpriteState_def Let_def)
  have after: "\<exists>p'. updateY tileToGame t m (startJump p) = Some p'
            \<and> \<not> on_ground p'
            \<and> velocity_y p' = kJumpGravity * real t - kJumpSpeed
            \<and> velocity_y p' < 0
            \<and> motion_type (fst (getSpriteState p')) = JUMPING"
    if g: "on_ground p" and t: "t < 800"
      and top: "map_option collided (probeTop m q delta) = Some False"
      and bot: "map_option collided
            (probeBottom m (q\<lparr>player_y := player_y q + delta, on_ground := False\<rparr>) 0)
            = Some False"
  proof -
    from t have "real t < 800" by simp
    then have neg: "kJumpGravity * real t - kJumpSpeed < 0"
      by (simp add: kJumpGravity_def kJumpSpeed_def)
    have "0 \<le> kMaxSpeedY" by (simp add: kMaxSpeedY_def)
    with neg g have vq: "velocity_y q = kJumpGravity * real t - kJumpSpeed"
      by (simp add: q_def updateY_velocity_def startJump_def Let_def kJumpSpeed_def min_def)
    have iq: "\<not> interacting q"
      by (simp add: q_def updateY_velocity_def startJump_def Let_def)
    from vq neg have "delta \<le> 0"
      by (simp add: delta_def mult_nonpos_nonneg)
    then have nd: "\<not> 0 < delta" by simp
    from top obtain info where info: "probeTop m q delta = Some info" "\<not> collided info"
      by auto
    have p2: "reactUp tileToGame info delta q
                = q\<lparr>player_y := player_y q + delta, on_ground := False\<rparr>"
      using info(2) by (simp add: reactUp_def)
    from bot obtain info' where info':
      "probeBottom m (q\<lparr>player_y := player_y q + delta, on_ground := False\<rparr>) 0 = Some info'"
      "\<not> collided info'"
      by auto
    have upd: "updateY tileToGame t m (startJump p)
        = Some (q\<lparr>player_y := player_y q + delta, on_ground := False\<rparr>)"
      using updateY_up_shape [of t "startJump p" m info tileToGame info'] nd info info' p2
      by (simp add: q_def [symmetric] delta_def [symmetric] recheckDown_def)
    show ?thesis
      using upd vq neg iq by (simp add: getSpriteState_def Let_def)
  qed
  from basic still after show ?thesis
    unfolding Let_def q_def [symmetric] delta_def [symmetric] by blast
qed

theorem startJump_stopJump_witness:
  "on_ground ((Player_ctor 3 320 224)\<lparr>on_ground := True\<rparr>) \<and> (16::nat) < 800
   \<and> velocity_y (updateY_velocity 16 (startJump ((Player_ctor 3 320 224)\<lparr>on_ground := True\<rparr>)))
       = - 0.245
   \<and> map_option collided (probeTop (single_wall_map 8 10)
         (updateY_velocity 16 (startJump ((Player_ctor 3 320 224)\<lparr>on_ground := True\<rparr>)))
         (- 0.245 * real (16::nat))) = Some False
   \<and> map_option collided (probeBottom (single_wall_map 8 10)
         ((Player_ctor 3 320 220.08)
            \<lparr>velocity_y := - 0.245, on_ground := False, jump_active := True\<rparr>) 0) = Some False
   \<and> motion_type (fst (getSpriteState (startJump ((Player_ctor 3 320 224)\<lparr>on_ground := True\<rparr>))))
     = STANDING
   \<and> updateY tileToGame32 16 (single_wall_map 8 10)
        (startJump ((Player_ctor 3 320 224)\<lparr>on_ground := True\<rparr>))
     = Some ((Player_ctor 3 320 220.08)
          \<lparr>velocity_y := - 0.245, on_ground := False, jump_active := True\<rparr>)
   \<and> motion_type (fst (getSpriteState ((Player_ctor 3 320 220.08)
          \<lparr>velocity_y := - 0.245, on_ground := False, jump_active := True\<rparr>))) = JUMPING"
  using startJump_stopJump [of "(Player_ctor 3 320 224)\<lparr>on_ground := True\<rparr>" 16
      "single_wall_map 8 10" tileToGame32]
  by (simp add: Let_def Player_ctor_def startJump_def getSpriteState_def
      updateY_def updateY_velocity_def probeTop_def
      probeBottom_def topCollision_def bottomCollision_def
      reactUp_def recheckDown_def
      getWallCollisionInfo_def getCollidingTiles_def single_wall_map_def tileToGame32_def
      Rectangle_left_def Rectangle_right_def Rectangle_top_def Rectangle_bottom_def
      Rectangle_width_def Rectangle_height_def kCollisionY_def kMaxSpeedY_def
      kJumpSpeed_def kJumpGravity_def)

text \<open>
  C8, counterexample: right after \<^verbatim>\<open>startJump\<close> on a grounded player at rest the
  vertical velocity is \<open>- kJumpSpeed\<close> and the classifier reports STANDING.
\<close>

theorem startJump_classifier_counterexample:
  "on_ground ((Player_ctor 3 320 224)\<lparr>on_ground := True\<rparr>)
   \<and> velocity_y (startJump ((Player_ctor 3 320 224)\<lparr>on_ground := True\<rparr>)) = - kJumpSpeed
   \<and> motion_type (fst (getSpriteState (startJump ((Player_ctor 3 320 224)\<lparr>on_ground := True\<rparr>))))
       = STANDING
   \<and> motion_type (fst (getSpriteState (startJump ((Player_ctor 3 320 224)\<lparr>on_ground := True\<rparr>))))
       \<noteq> JUMPING"
  by (simp add: Player_ctor_def startJump_def getSpriteState_def Let_def)

end
